theory Spec2Isabelle
  imports Main "HOL-Library.Word"
begin

section \<open>Data model\<close>

text \<open>
  The log puller of package \<open>scanner\<close> and the node adapter of package \<open>rpc\<close>.
  Block heights are Go \<open>uint64\<close> values, so they are 64-bit words and \<open>+\<close> wraps.
  \<open>common.Address\<close> is a 20-byte array and \<open>common.Hash\<close> a 32-byte array; both are
  byte lists here, and every function below works on byte lists of any length.
  A Go \<open>error\<close> is \<open>error option\<close>, \<open>None\<close> being \<open>nil\<close>; a Go function returning
  \<open>(v, err)\<close> returns a pair, since the caller may read \<open>v\<close> whatever \<open>err\<close> is.
  Calls to \<open>log.Println\<close> have no effect on the scanner and are left out.
\<close>

type_synonym byte = "8 word"
type_synonym uint64 = "64 word"
type_synonym Address = "byte list"
type_synonym Hash = "byte list"

datatype error = Error string

text \<open>\<open>common.Address{}\<close>: the zero value of the 20-byte array.\<close>

definition zeroAddress :: Address where
  "zeroAddress = replicate 20 0"

text \<open>\<open>types.Log\<close>, with the fields the spec lists.\<close>

record Log =
  Address :: Address
  Topics :: "Hash list"
  Data :: "byte list"
  BlockNumber :: uint64
  TxHash :: Hash

text \<open>\<open>types.Transaction\<close>: \<open>To\<close> is what \<open>trx.To()\<close> returns, \<open>None\<close> for the nil pointer.\<close>

record Transaction =
  To :: "Address option"

text \<open>\<open>ethereum.FilterQuery\<close>: the block bounds are \<open>big.Int\<close> values.\<close>

record FilterQuery =
  FromBlock :: nat
  ToBlock :: nat
  QueryTopics :: "Hash list list"

text \<open>
  \<open>ethclient.Client\<close> is the connection to the Opera node. It is outside the repository:
  the record holds what the node answers to each of the three calls the adapter makes.
  \<open>TransactionByHash\<close> returns a non-nil transaction exactly when its error is nil, hence
  the sum type.
\<close>

record Client =
  answerBlockNumber :: "uint64 \<times> error option"
  answerFilterLogs :: "FilterQuery \<Rightarrow> Log list \<times> error option"
  answerTransactionByHash :: "Hash \<Rightarrow> error + Transaction"

datatype request =
  ReqBlockNumber
  | ReqFilterLogs FilterQuery
  | ReqTransactionByHash Hash

text \<open>
  \<open>rpc.Adapter\<close>. Field \<open>ftm\<close> is the client; \<open>requests\<close> records, oldest first, the calls
  sent to the node through it, so that "a request is issued" can be stated.
\<close>

record Adapter =
  ftm :: Client
  requests :: "request list"

text \<open>
  Modelled from the spec: \<open>cache.MemCache\<close> and its method \<open>TrxRecipient\<close> (package
  \<open>erc20pump/internal/scanner/cache\<close>). The spec: it "returns cached value if present;
  otherwise invokes fallback, stores the result (including, by the reference behavior,
  error-free zero results), and returns it"; an error of the fallback is the error of the
  resolution.
\<close>

type_synonym MemCache = "Hash \<rightharpoonup> Address"

definition cacheTrxRecipient ::
  "MemCache \<Rightarrow> Hash \<Rightarrow> (Hash \<Rightarrow> Adapter \<Rightarrow> (Address \<times> error option) \<times> Adapter) \<Rightarrow> Adapter
    \<Rightarrow> (Address \<times> error option) \<times> MemCache \<times> Adapter" where
  "cacheTrxRecipient c tx loader a =
     (case c tx of
        Some adr \<Rightarrow> ((adr, None), c, a)
      | None \<Rightarrow>
          (case loader tx a of
             ((adr, Some e), a') \<Rightarrow> ((adr, Some e), c, a')
           | ((adr, None), a') \<Rightarrow> ((adr, None), c(tx \<mapsto> adr), a')))"

text \<open>\<open>cfg.Config\<close>, with the two fields the puller reads.\<close>

record Config =
  StartBlock :: uint64
  ScanContract :: Address

text \<open>
  \<open>logPuller\<close>. \<open>output_chan\<close> is the channel \<open>output\<close>: the records sent on it so far,
  oldest first. \<open>cfg\<close> is the configuration that the closure \<open>contractMatch\<close> captures.
  \<open>sigStop\<close> and \<open>wg\<close> only synchronise goroutines; the case chosen by the \<open>select\<close> of
  \<open>scan\<close> is an input of \<open>scan_iteration\<close> below.
\<close>

record logPuller =
  output_chan :: "Log list"
  topBlock :: uint64
  currentBlock :: uint64
  rpc :: Adapter
  cache :: MemCache
  topics :: "Hash list list"
  cfg :: Config

definition defaultLogsWindowSize :: uint64 where
  "defaultLogsWindowSize = 5"

section \<open>The adapter (rpc.go)\<close>

definition TopBlock :: "Adapter \<Rightarrow> (uint64 \<times> error option) \<times> Adapter" where
  "TopBlock a =
     (answerBlockNumber (ftm a), a\<lparr>requests := requests a @ [ReqBlockNumber]\<rparr>)"

definition GetLogs ::
  "Adapter \<Rightarrow> Hash list list \<Rightarrow> uint64 \<Rightarrow> uint64 \<Rightarrow> (Log list \<times> error option) \<times> Adapter" where
  "GetLogs a tps from to =
     (let q = \<lparr>FromBlock = unat from, ToBlock = unat to, QueryTopics = tps\<rparr>
      in (answerFilterLogs (ftm a) q, a\<lparr>requests := requests a @ [ReqFilterLogs q]\<rparr>))"

definition TrxRecipient :: "Adapter \<Rightarrow> Hash \<Rightarrow> (Address \<times> error option) \<times> Adapter" where
  "TrxRecipient a tx =
     (let a' = a\<lparr>requests := requests a @ [ReqTransactionByHash tx]\<rparr>
      in case answerTransactionByHash (ftm a) tx of
           Inl err \<Rightarrow> ((zeroAddress, Some err), a')
         | Inr trx \<Rightarrow>
             (case To trx of
                None \<Rightarrow> ((zeroAddress, None), a')
              | Some adr \<Rightarrow> ((adr, None), a')))"

section \<open>The log puller\<close>

text \<open>Go's \<open>bytes.Compare\<close>: lexicographic order of two byte slices, as -1, 0 or 1.\<close>

fun bytesCompare :: "byte list \<Rightarrow> byte list \<Rightarrow> int" where
  "bytesCompare [] [] = 0"
| "bytesCompare [] (y # ys) = -1"
| "bytesCompare (x # xs) [] = 1"
| "bytesCompare (x # xs) (y # ys) =
     (if x < y then -1 else if y < x then 1 else bytesCompare xs ys)"

definition contractMatch :: "logPuller \<Rightarrow> Address \<Rightarrow> bool" where
  "contractMatch lp rc = (bytesCompare rc (ScanContract (cfg lp)) = 0)"

text \<open>
  \<open>newPuller\<close>. The keys of the registry \<open>LogTopicProcessor\<close>, in the order the loop
  over the map visits them, are the parameter \<open>keys\<close>.
\<close>

definition newPuller :: "Config \<Rightarrow> Adapter \<Rightarrow> MemCache \<Rightarrow> Hash list \<Rightarrow> logPuller" where
  "newPuller c a m keys =
     \<lparr>output_chan = [], topBlock = 0, currentBlock = StartBlock c, rpc = a, cache = m,
      topics = [keys], cfg = c\<rparr>"

definition fetchHead :: "logPuller \<Rightarrow> logPuller" where
  "fetchHead lp =
     (case TopBlock (rpc lp) of
        ((head, err), a) \<Rightarrow> lp\<lparr>topBlock := head, rpc := a\<rparr>)"

definition nextLogs :: "logPuller \<Rightarrow> Log list \<times> logPuller" where
  "nextLogs lp =
     (if currentBlock lp > topBlock lp then ([], lp)
      else
        let t = currentBlock lp + defaultLogsWindowSize;
            target = (if t > topBlock lp then topBlock lp else t)
        in case GetLogs (rpc lp) (topics lp) (currentBlock lp) target of
             ((logs, Some err), a) \<Rightarrow> ([], lp\<lparr>rpc := a\<rparr>)
           | ((logs, None), a) \<Rightarrow> (logs, lp\<lparr>currentBlock := target + 1, rpc := a\<rparr>))"

definition process :: "logPuller \<Rightarrow> Log \<Rightarrow> logPuller" where
  "process lp ev =
     (case cacheTrxRecipient (cache lp) (TxHash ev) (\<lambda>tx a. TrxRecipient a tx) (rpc lp) of
        ((rec, Some err), c, a) \<Rightarrow> lp\<lparr>rpc := a, cache := c\<rparr>
      | ((rec, None), c, a) \<Rightarrow>
          (let lp' = lp\<lparr>rpc := a, cache := c\<rparr>
           in if \<not> contractMatch lp' rec then lp'
              else lp'\<lparr>output_chan := output_chan lp' @ [ev]\<rparr>))"

text \<open>
  The body of the loop of \<open>scan\<close> after its \<open>select\<close>: with no buffered record it pulls the
  next window, otherwise it takes the first buffered record and processes it.
\<close>

definition scan_body :: "logPuller \<times> Log list \<Rightarrow> logPuller \<times> Log list" where
  "scan_body st =
     (case st of
        (lp, []) \<Rightarrow> (case nextLogs lp of (logs, lp') \<Rightarrow> (lp', logs))
      | (lp, record # logs) \<Rightarrow> (process lp record, logs))"

datatype select_case = SigStop | TickC | InfoC | Default

text \<open>One iteration of the loop of \<open>scan\<close>; \<open>None\<close> when the loop returns.\<close>

definition scan_iteration ::
  "select_case \<Rightarrow> logPuller \<times> Log list \<Rightarrow> (logPuller \<times> Log list) option" where
  "scan_iteration c st =
     (case c of
        SigStop \<Rightarrow> None
      | TickC \<Rightarrow> Some (scan_body (fetchHead (fst st), snd st))
      | InfoC \<Rightarrow> Some (scan_body st)
      | Default \<Rightarrow> Some (scan_body st))"

text \<open>
  A run of the loop of \<open>scan\<close>. Each iteration has two inputs: the case its \<open>select\<close>
  takes and what the node answers during it. \<open>scan_states\<close> lists the states before the
  first iteration and after each one, and stops when the loop returns.
\<close>

definition with_client :: "Client \<Rightarrow> logPuller \<Rightarrow> logPuller" where
  "with_client n lp = lp\<lparr>rpc := (rpc lp)\<lparr>ftm := n\<rparr>\<rparr>"

fun scan_states ::
  "(select_case \<times> Client) list \<Rightarrow> logPuller \<times> Log list \<Rightarrow> (logPuller \<times> Log list) list" where
  "scan_states [] st = [st]"
| "scan_states ((c, n) # ins) st =
     st # (case scan_iteration c (with_client n (fst st), snd st) of
             None \<Rightarrow> []
           | Some st' \<Rightarrow> scan_states ins st')"

text \<open>The result of the recipient lookup that \<open>process\<close> makes for a record.\<close>

abbreviation resolveRecipient :: "logPuller \<Rightarrow> Log \<Rightarrow> Address \<times> error option" where
  "resolveRecipient lp ev \<equiv>
     fst (cacheTrxRecipient (cache lp) (TxHash ev) (\<lambda>tx a. TrxRecipient a tx) (rpc lp))"

section \<open>Comparing addresses\<close>

lemma bytesCompare_eq_0_iff: "bytesCompare xs ys = 0 \<longleftrightarrow> xs = ys"
  by (induction xs ys rule: bytesCompare.induct) auto

lemma contractMatch_iff: "contractMatch lp rc \<longleftrightarrow> rc = ScanContract (cfg lp)"
  by (simp add: contractMatch_def bytesCompare_eq_0_iff)

section \<open>What each operation does to the state\<close>

lemma fetchHead_fields:
  "currentBlock (fetchHead lp) = currentBlock lp"
  "topBlock (fetchHead lp) = fst (answerBlockNumber (ftm (rpc lp)))"
  "requests (rpc (fetchHead lp)) = requests (rpc lp) @ [ReqBlockNumber]"
  "ftm (rpc (fetchHead lp)) = ftm (rpc lp)"
  by (simp_all add: fetchHead_def TopBlock_def split: prod.splits)

lemma nextLogs_idle: "topBlock lp < currentBlock lp \<Longrightarrow> nextLogs lp = ([], lp)"
  by (simp add: nextLogs_def)

lemma nextLogs_requests:
  "requests (rpc (snd (nextLogs lp))) =
     (if topBlock lp < currentBlock lp then requests (rpc lp)
      else let t = currentBlock lp + defaultLogsWindowSize; target = (if topBlock lp < t then topBlock lp else t)
        in requests (rpc lp) @ [ReqFilterLogs
              \<lparr>FromBlock = unat (currentBlock lp), ToBlock = unat target,
               QueryTopics = topics lp\<rparr>])"
  by (auto simp: nextLogs_def GetLogs_def Let_def split: prod.splits option.splits)

lemma nextLogs_currentBlock:
  "currentBlock (snd (nextLogs lp)) =
     (if topBlock lp < currentBlock lp then currentBlock lp
      else let t = currentBlock lp + defaultLogsWindowSize; target = (if topBlock lp < t then topBlock lp else t)
        in if snd (answerFilterLogs (ftm (rpc lp))
              \<lparr>FromBlock = unat (currentBlock lp), ToBlock = unat target,
               QueryTopics = topics lp\<rparr>) = None
           then target + 1 else currentBlock lp)"
  by (auto simp: nextLogs_def GetLogs_def Let_def split: prod.splits option.splits)

lemma nextLogs_batch:
  "fst (nextLogs lp) =
     (if topBlock lp < currentBlock lp then []
      else let t = currentBlock lp + defaultLogsWindowSize; target = (if topBlock lp < t then topBlock lp else t);
               r = answerFilterLogs (ftm (rpc lp))
                     \<lparr>FromBlock = unat (currentBlock lp), ToBlock = unat target,
                      QueryTopics = topics lp\<rparr>
        in if snd r = None then fst r else [])"
  by (auto simp: nextLogs_def GetLogs_def Let_def split: prod.splits option.splits)

text \<open>
  The window of a fetch: it starts at the cursor and never passes the head. While the
  head leaves room for \<open>defaultLogsWindowSize\<close>, it holds at most
  \<open>defaultLogsWindowSize + 1\<close> blocks.
\<close>

lemma nextLogs_window:
  assumes "requests (rpc (snd (nextLogs lp))) = requests (rpc lp) @ [ReqFilterLogs q]"
  shows "FromBlock q = unat (currentBlock lp)"
    and "ToBlock q \<le> unat (topBlock lp)"
    and "unat (topBlock lp) + unat defaultLogsWindowSize < 2 ^ 64 \<Longrightarrow>
           FromBlock q \<le> ToBlock q
           \<and> ToBlock q - FromBlock q + 1 \<le> unat defaultLogsWindowSize + 1"
  using assms
  by (auto simp: nextLogs_requests Let_def defaultLogsWindowSize_def word_less_nat_alt
      word_le_nat_alt unat_word_ariths split: if_splits)

lemma nextLogs_topBlock: "topBlock (snd (nextLogs lp)) = topBlock lp"
  by (auto simp: nextLogs_def GetLogs_def Let_def split: prod.splits option.splits)

lemma process_fields:
  "currentBlock (process lp ev) = currentBlock lp"
  "topBlock (process lp ev) = topBlock lp"
  "cfg (process lp ev) = cfg lp"
  by (simp_all add: process_def Let_def split: prod.splits option.splits)

lemma process_requests:
  "requests (rpc (process lp ev)) =
     (case cache lp (TxHash ev) of
        Some adr \<Rightarrow> requests (rpc lp)
      | None \<Rightarrow> requests (rpc lp) @ [ReqTransactionByHash (TxHash ev)])"
  by (auto simp: process_def cacheTrxRecipient_def TrxRecipient_def Let_def
      split: prod.splits option.splits sum.splits)

lemma process_output:
  "output_chan (process lp ev) =
     (if snd (resolveRecipient lp ev) = None
         \<and> fst (resolveRecipient lp ev) = ScanContract (cfg lp)
      then output_chan lp @ [ev] else output_chan lp)"
  by (auto simp: process_def Let_def contractMatch_iff split: prod.splits option.splits)

text \<open>The cache only ever stores what the adapter returned without an error.\<close>

lemma process_cache_entries:
  assumes "cache (process lp ev) tx = Some adr"
  shows "cache lp tx = Some adr
    \<or> (tx = TxHash ev \<and> fst (TrxRecipient (rpc lp) tx) = (adr, None))"
  using assms
  by (auto simp: process_def cacheTrxRecipient_def Let_def
      split: prod.splits option.splits if_splits)

section \<open>The cursor along a run\<close>

lemma with_client_fields:
  "currentBlock (with_client n lp) = currentBlock lp"
  "topBlock (with_client n lp) = topBlock lp"
  "requests (rpc (with_client n lp)) = requests (rpc lp)"
  "ftm (rpc (with_client n lp)) = n"
  by (simp_all add: with_client_def)

text \<open>
  One call of \<open>nextLogs\<close>: the query is sent exactly when the cursor has not passed the
  head, and, while the head leaves room for \<open>defaultLogsWindowSize\<close>, the cursor moves
  forward exactly when that query is answered without an error.
\<close>

lemma nextLogs_issues:
  "(\<exists>q. requests (rpc (snd (nextLogs lp))) = requests (rpc lp) @ [ReqFilterLogs q])
     \<longleftrightarrow> currentBlock lp \<le> topBlock lp"
  by (auto simp: nextLogs_requests Let_def not_less)

lemma nextLogs_advance:
  assumes "unat (topBlock lp) + unat defaultLogsWindowSize < 2 ^ 64"
  shows "currentBlock lp \<le> currentBlock (snd (nextLogs lp))"
    and "currentBlock lp < currentBlock (snd (nextLogs lp)) \<longleftrightarrow>
          currentBlock lp \<le> topBlock lp
          \<and> (\<exists>q. requests (rpc (snd (nextLogs lp))) = requests (rpc lp) @ [ReqFilterLogs q]
             \<and> snd (answerFilterLogs (ftm (rpc lp)) q) = None)"
proof -
  have r: "unat (topBlock lp) + 5 < 2 ^ 64"
    using assms by (simp add: defaultLogsWindowSize_def)
  show "currentBlock lp \<le> currentBlock (snd (nextLogs lp))"
    using r
    by (auto simp: nextLogs_currentBlock Let_def defaultLogsWindowSize_def
        word_less_nat_alt word_le_nat_alt unat_word_ariths)
  show "currentBlock lp < currentBlock (snd (nextLogs lp)) \<longleftrightarrow>
          currentBlock lp \<le> topBlock lp
          \<and> (\<exists>q. requests (rpc (snd (nextLogs lp))) = requests (rpc lp) @ [ReqFilterLogs q]
             \<and> snd (answerFilterLogs (ftm (rpc lp)) q) = None)"
    using r
    by (auto simp: nextLogs_currentBlock nextLogs_requests Let_def defaultLogsWindowSize_def
        word_less_nat_alt word_le_nat_alt unat_word_ariths)
qed

text \<open>The body of the loop, from the state it starts in.\<close>

lemma scan_body_cursor:
  assumes "unat (topBlock lp) + unat defaultLogsWindowSize < 2 ^ 64"
    and "scan_body (lp, logs) = (lp', logs')"
  shows "currentBlock lp \<le> currentBlock lp'
    \<and> ((\<exists>q. requests (rpc lp') = requests (rpc lp) @ [ReqFilterLogs q])
          \<longleftrightarrow> logs = [] \<and> currentBlock lp \<le> topBlock lp)
    \<and> (currentBlock lp < currentBlock lp' \<longleftrightarrow>
          logs = [] \<and> currentBlock lp \<le> topBlock lp
          \<and> (\<exists>q. requests (rpc lp') = requests (rpc lp) @ [ReqFilterLogs q]
             \<and> snd (answerFilterLogs (ftm (rpc lp)) q) = None))
    \<and> topBlock lp' = topBlock lp
    \<and> (requests (rpc lp') = requests (rpc lp)
          \<or> (\<exists>r. requests (rpc lp') = requests (rpc lp) @ [r] \<and> r \<noteq> ReqBlockNumber))"
proof (cases logs)
  case Nil
  with assms(2) have lp': "lp' = snd (nextLogs lp)"
    by (auto simp: scan_body_def split: prod.splits)
  have "requests (rpc lp') = requests (rpc lp)
        \<or> (\<exists>r. requests (rpc lp') = requests (rpc lp) @ [r] \<and> r \<noteq> ReqBlockNumber)"
    by (simp add: lp' nextLogs_requests Let_def)
  then show ?thesis
    using nextLogs_advance [OF assms(1)] nextLogs_issues [of lp]
    by (simp add: lp' Nil nextLogs_topBlock)
next
  case (Cons ev rest)
  with assms(2) have lp': "lp' = process lp ev"
    by (simp add: scan_body_def)
  have no: "requests (rpc lp') \<noteq> requests (rpc lp) @ [ReqFilterLogs q]" for q
    by (simp add: lp' process_requests split: option.splits)
  have "requests (rpc lp') = requests (rpc lp)
        \<or> (\<exists>r. requests (rpc lp') = requests (rpc lp) @ [r] \<and> r \<noteq> ReqBlockNumber)"
    by (simp add: lp' process_requests split: option.splits)
  with no show ?thesis
    by (simp add: lp' Cons process_fields)
qed


text \<open>
  What an iteration adds to the trace of requests: at most the head query of a tick, then
  at most one request of the body. Its last request is a log query exactly when the body
  has sent one.
\<close>

lemma trace_ends_with_log_query:
  assumes "mid = xs @ pre" and "pre = [] \<or> pre = [ReqBlockNumber]"
    and "ys = mid \<or> (\<exists>r. ys = mid @ [r] \<and> r \<noteq> ReqBlockNumber)"
  shows "(\<exists>rs. ys = xs @ rs @ [ReqFilterLogs q]) \<longleftrightarrow> ys = mid @ [ReqFilterLogs q]"
  using assms by (auto simp: append_eq_append_conv2 append_eq_Cons_conv Cons_eq_append_conv)

lemma scan_iteration_cursor:
  assumes top: "unat (topBlock lp) + unat defaultLogsWindowSize < 2 ^ 64"
    and ans: "c = TickC \<longrightarrow>
        unat (fst (answerBlockNumber n)) + unat defaultLogsWindowSize < 2 ^ 64"
    and it: "scan_iteration c (with_client n lp, logs) = Some (lp', logs')"
    and head: "head = (if c = TickC then fst (answerBlockNumber n) else topBlock lp)"
  shows "currentBlock lp \<le> currentBlock lp'
    \<and> topBlock lp' = head
    \<and> ((\<exists>rs q. requests (rpc lp') = requests (rpc lp) @ rs @ [ReqFilterLogs q])
          \<longleftrightarrow> logs = [] \<and> currentBlock lp \<le> head)
    \<and> (currentBlock lp < currentBlock lp' \<longleftrightarrow>
          logs = [] \<and> currentBlock lp \<le> head
          \<and> (\<exists>rs q. requests (rpc lp') = requests (rpc lp) @ rs @ [ReqFilterLogs q]
             \<and> snd (answerFilterLogs n q) = None))
    \<and> unat (topBlock lp') + unat defaultLogsWindowSize < 2 ^ 64"
proof -
  define mid where
    "mid = (if c = TickC then fetchHead (with_client n lp) else with_client n lp)"
  have body: "scan_body (mid, logs) = (lp', logs')"
    using it by (cases c) (simp_all add: scan_iteration_def mid_def)
  have mid: "currentBlock mid = currentBlock lp" "ftm (rpc mid) = n" "topBlock mid = head"
    by (simp_all add: mid_def head fetchHead_fields with_client_fields)
  have room: "unat (topBlock mid) + unat defaultLogsWindowSize < 2 ^ 64"
    using top ans by (simp add: mid(3) head)
  obtain pre where pre: "requests (rpc mid) = requests (rpc lp) @ pre"
    "pre = [] \<or> pre = [ReqBlockNumber]"
    by (cases "c = TickC") (simp_all add: mid_def fetchHead_fields with_client_fields)
  note b = scan_body_cursor [OF room body, unfolded mid]
  from b have tail: "requests (rpc lp') = requests (rpc mid)
      \<or> (\<exists>r. requests (rpc lp') = requests (rpc mid) @ [r] \<and> r \<noteq> ReqBlockNumber)"
    by blast
  have last: "(\<exists>rs. requests (rpc lp') = requests (rpc lp) @ rs @ [ReqFilterLogs q])
      \<longleftrightarrow> requests (rpc lp') = requests (rpc mid) @ [ReqFilterLogs q]" for q
    by (rule trace_ends_with_log_query [OF pre tail])
  have issued: "(\<exists>rs q. requests (rpc lp') = requests (rpc lp) @ rs @ [ReqFilterLogs q])
      \<longleftrightarrow> (\<exists>q. requests (rpc lp') = requests (rpc mid) @ [ReqFilterLogs q])"
    using last by blast
  have answered: "(\<exists>rs q. requests (rpc lp') = requests (rpc lp) @ rs @ [ReqFilterLogs q]
             \<and> snd (answerFilterLogs n q) = None)
      \<longleftrightarrow> (\<exists>q. requests (rpc lp') = requests (rpc mid) @ [ReqFilterLogs q]
             \<and> snd (answerFilterLogs n q) = None)"
    using last by blast
  from b room show ?thesis
    unfolding issued answered by (simp add: mid(3))
qed

lemma scan_states_0: "scan_states ins st ! 0 = st"
  by (cases ins) auto

section \<open>The claims\<close>

text \<open>
  C1 (window bound). The claim: a fetch with \<open>currentBlock \<le> topBlock\<close> asks for at most
  \<open>defaultLogsWindowSize = 5\<close> blocks, and never beyond \<open>topBlock\<close>. The comment on
  \<open>defaultLogsWindowSize\<close> says the same: "the maximal number of blocks we try to pull at
  once". \<open>nextLogs\<close> sets \<open>target\<close> to \<open>currentBlock + defaultLogsWindowSize\<close> and both
  bounds of the query are inclusive, so with \<open>currentBlock = 1\<close> and \<open>topBlock = 100\<close> it
  asks for the blocks 1 to 6: six blocks, one more than the window size.
\<close>

theorem nextLogs_window_spans_six_blocks:
  "requests (rpc (snd (nextLogs (lp\<lparr>currentBlock := 1, topBlock := 100\<rparr>)))) =
     requests (rpc lp) @ [ReqFilterLogs \<lparr>FromBlock = 1, ToBlock = 6, QueryTopics = topics lp\<rparr>]
   \<and> unat defaultLogsWindowSize < 6 - 1 + 1"
  by (simp add: nextLogs_requests defaultLogsWindowSize_def)

text \<open>
  C2 (first window). The claim: with \<open>topBlock = 100\<close> and \<open>currentBlock = 1\<close> the first
  call of \<open>nextLogs\<close> asks for the range from 1 to 5 and a successful fetch sets
  \<open>currentBlock\<close> to 6. The code asks for the range from 1 to 6, returns the records the
  node sent and sets \<open>currentBlock\<close> to 7, by the same addition as in C1.
\<close>

theorem nextLogs_first_fetch_from_block_1:
  "nextLogs (lp\<lparr>currentBlock := 1, topBlock := 100,
       rpc := \<lparr>ftm = n\<lparr>answerFilterLogs := \<lambda>q. (logs, None)\<rparr>, requests = []\<rparr>\<rparr>) =
     (logs, lp\<lparr>currentBlock := 7, topBlock := 100,
        rpc := \<lparr>ftm = n\<lparr>answerFilterLogs := \<lambda>q. (logs, None)\<rparr>,
                requests = [ReqFilterLogs \<lparr>FromBlock = 1, ToBlock = 6, QueryTopics = topics lp\<rparr>]\<rparr>\<rparr>)"
  by (simp add: nextLogs_def GetLogs_def defaultLogsWindowSize_def)

text \<open>
  C3 (head refresh that fails). The claim: when the head query returns an error,
  \<open>topBlock\<close> keeps its value. \<open>fetchHead\<close> assigns the first result of \<open>TopBlock\<close> to
  \<open>topBlock\<close> before it looks at the error, so the value that comes with the error
  replaces the head: with \<open>topBlock = 100\<close> and the answer \<open>(0, err)\<close>, \<open>topBlock\<close> is 0
  afterwards.
\<close>

theorem fetchHead_error_overwrites_topBlock:
  "topBlock (fetchHead (lp\<lparr>topBlock := 100,
       rpc := \<lparr>ftm = n\<lparr>answerBlockNumber := (0, Some e)\<rparr>, requests = rs\<rparr>\<rparr>)) = 0"
  by (simp add: fetchHead_def TopBlock_def)

text \<open>
  C4 (filter correctness). \<open>process\<close> sends a record on the output channel if and only
  if the recipient lookup returns no error and the address it returns is equal, byte for
  byte, to the configured contract address; in every other case the channel is left as
  it was.
\<close>

theorem process_pushes_iff_recipient_matches:
  "(output_chan (process lp ev) = output_chan lp @ [ev] \<longleftrightarrow>
      snd (resolveRecipient lp ev) = None
      \<and> fst (resolveRecipient lp ev) = ScanContract (cfg lp))
   \<and> (output_chan (process lp ev) = output_chan lp \<longleftrightarrow>
      \<not> (snd (resolveRecipient lp ev) = None
      \<and> fst (resolveRecipient lp ev) = ScanContract (cfg lp)))"
  by (simp add: process_output)

theorem process_pushes_iff_recipient_matches_witness:
  "let watched = replicate 20 (1 :: byte);
       ev = \<lparr>Address = [], Topics = [], Data = [], BlockNumber = 3, TxHash = [7]\<rparr>;
       n = \<lparr>answerBlockNumber = (100, None), answerFilterLogs = (\<lambda>q. ([], None)),
            answerTransactionByHash = (\<lambda>tx. Inr \<lparr>To = Some watched\<rparr>)\<rparr>;
       lp = newPuller \<lparr>StartBlock = 1, ScanContract = watched\<rparr>
              \<lparr>ftm = n, requests = []\<rparr> Map.empty []
   in output_chan (process lp ev) = output_chan lp @ [ev]"
  unfolding Let_def
  by (rule process_pushes_iff_recipient_matches [THEN conjunct1, THEN iffD2])
    (simp add: newPuller_def cacheTrxRecipient_def TrxRecipient_def)

text \<open>
  C5 (no progress on error). When \<open>nextLogs\<close> sends a query to the node and the answer
  to that query is an error, \<open>nextLogs\<close> returns no records and \<open>currentBlock\<close> is what it
  was before the call.
\<close>

theorem nextLogs_error_keeps_cursor:
  assumes "requests (rpc (snd (nextLogs lp))) = requests (rpc lp) @ [ReqFilterLogs q]"
    and "snd (answerFilterLogs (ftm (rpc lp)) q) = Some e"
  shows "fst (nextLogs lp) = [] \<and> currentBlock (snd (nextLogs lp)) = currentBlock lp"
  using assms
  by (auto simp: nextLogs_requests nextLogs_batch nextLogs_currentBlock Let_def
      split: if_splits)

theorem nextLogs_error_keeps_cursor_witness:
  "let n = \<lparr>answerBlockNumber = (100, None),
            answerFilterLogs = (\<lambda>q. ([], Some (Error ''connection reset''))),
            answerTransactionByHash = (\<lambda>tx. Inl (Error ''not found''))\<rparr>;
       lp = fetchHead (newPuller \<lparr>StartBlock = 6, ScanContract = replicate 20 1\<rparr>
              \<lparr>ftm = n, requests = []\<rparr> Map.empty [])
   in fst (nextLogs lp) = [] \<and> currentBlock (snd (nextLogs lp)) = currentBlock lp"
  unfolding Let_def
  by (rule nextLogs_error_keeps_cursor
        [where q = "\<lparr>FromBlock = 6, ToBlock = 11, QueryTopics = [[]]\<rparr>"
           and e = "Error ''connection reset''"])
    (simp_all add: newPuller_def fetchHead_def TopBlock_def nextLogs_requests
      defaultLogsWindowSize_def)

text \<open>
  C6 (the cursor never goes back). As stated, for every sequence of fetches, the claim
  fails where the 64-bit additions of \<open>nextLogs\<close> wrap around: with \<open>currentBlock\<close> and
  \<open>topBlock\<close> both \<open>2^64 - 1\<close>, \<open>currentBlock + 5\<close> is 4, and a successful fetch sets
  \<open>currentBlock\<close> to 5.
\<close>

theorem nextLogs_cursor_wraps_counterexample:
  "let n = \<lparr>answerBlockNumber = (18446744073709551615, None),
            answerFilterLogs = (\<lambda>q. ([], None)),
            answerTransactionByHash = (\<lambda>tx. Inl (Error ''not found''))\<rparr>;
       lp = fetchHead (newPuller
              \<lparr>StartBlock = 18446744073709551615, ScanContract = replicate 20 1\<rparr>
              \<lparr>ftm = n, requests = []\<rparr> Map.empty [])
   in currentBlock lp = 18446744073709551615
      \<and> topBlock lp = 18446744073709551615
      \<and> fst (nextLogs lp) = []
      \<and> currentBlock (snd (nextLogs lp)) = 5
      \<and> currentBlock (snd (nextLogs lp)) < currentBlock lp"
  by (simp add: Let_def newPuller_def fetchHead_def TopBlock_def nextLogs_def GetLogs_def
      defaultLogsWindowSize_def)

text \<open>
  C6, amended. Take a run of the loop of \<open>scan\<close> in which the head stays at most
  \<open>2^64 - 6\<close>: \<open>topBlock\<close> at the start, and every head height the node reports on a
  tick, leave room for \<open>defaultLogsWindowSize\<close>. In each iteration let \<open>head\<close> be
  \<open>topBlock\<close> after the refresh of that iteration. Then \<open>currentBlock\<close> does not
  decrease; the log query of \<open>nextLogs\<close> is sent exactly when no record is buffered and
  \<open>currentBlock \<le> head\<close>; and \<open>currentBlock\<close> increases exactly when that query is sent
  and its answer carries no error, however many records the answer holds.
\<close>

theorem scan_currentBlock_monotone:
  assumes "unat (topBlock (fst st)) + unat defaultLogsWindowSize < 2 ^ 64"
    and "\<forall>(c, n) \<in> set ins.
           c = TickC \<longrightarrow> unat (fst (answerBlockNumber n)) + unat defaultLogsWindowSize < 2 ^ 64"
    and "Suc i < length (scan_states ins st)"
  shows
    "let lp = fst (scan_states ins st ! i);
         logs = snd (scan_states ins st ! i);
         lp' = fst (scan_states ins st ! Suc i);
         c = fst (ins ! i);
         n = snd (ins ! i);
         head = (if c = TickC then fst (answerBlockNumber n) else topBlock lp)
     in currentBlock lp \<le> currentBlock lp'
        \<and> topBlock lp' = head
        \<and> ((\<exists>rs q. requests (rpc lp') = requests (rpc lp) @ rs @ [ReqFilterLogs q])
              \<longleftrightarrow> logs = [] \<and> currentBlock lp \<le> head)
        \<and> (currentBlock lp < currentBlock lp' \<longleftrightarrow>
              logs = [] \<and> currentBlock lp \<le> head
              \<and> (\<exists>rs q. requests (rpc lp') = requests (rpc lp) @ rs @ [ReqFilterLogs q]
                 \<and> snd (answerFilterLogs n q) = None))"
  using assms
proof (induction ins arbitrary: st i)
  case Nil
  then show ?case by simp
next
  case (Cons a ins)
  obtain c n where a: "a = (c, n)" by (cases a)
  obtain lp logs where st: "st = (lp, logs)" by (cases st)
  from Cons.prems(3) obtain st' where
    it: "scan_iteration c (with_client n lp, logs) = Some st'"
    by (auto simp: a st split: option.splits)
  obtain lp' logs' where st': "st' = (lp', logs')" by (cases st')
  have tick: "c = TickC \<longrightarrow>
      unat (fst (answerBlockNumber n)) + unat defaultLogsWindowSize < 2 ^ 64"
    using Cons.prems(2) by (simp add: a)
  have top: "unat (topBlock lp) + unat defaultLogsWindowSize < 2 ^ 64"
    using Cons.prems(1) by (simp add: st)
  note step = scan_iteration_cursor [OF top tick it [unfolded st'] refl]
  have unroll: "scan_states (a # ins) st = st # scan_states ins st'"
    by (simp add: a st it)
  show ?case
  proof (cases i)
    case 0
    show ?thesis
      unfolding unroll 0 Let_def using step by (simp add: scan_states_0 st st' a)
  next
    case (Suc j)
    from step have "unat (topBlock lp') + unat defaultLogsWindowSize < 2 ^ 64"
      by blast
    then have "unat (topBlock (fst st')) + unat defaultLogsWindowSize < 2 ^ 64"
      by (simp add: st')
    moreover have "\<forall>(c, n) \<in> set ins.
        c = TickC \<longrightarrow> unat (fst (answerBlockNumber n)) + unat defaultLogsWindowSize < 2 ^ 64"
      using Cons.prems(2) by simp
    moreover have "Suc j < length (scan_states ins st')"
      using Cons.prems(3) by (simp add: unroll Suc)
    ultimately show ?thesis
      unfolding unroll Suc using Cons.IH [of st' j] by simp
  qed
qed

theorem scan_currentBlock_monotone_witness:
  "let n = \<lparr>answerBlockNumber = (100, None), answerFilterLogs = (\<lambda>q. ([], None)),
            answerTransactionByHash = (\<lambda>tx. Inl (Error ''not found''))\<rparr>;
       ins = [(TickC, n)];
       st = (newPuller \<lparr>StartBlock = 1, ScanContract = replicate 20 1\<rparr>
               \<lparr>ftm = n, requests = []\<rparr> Map.empty [], []);
       lp = fst (scan_states ins st ! 0);
       logs = snd (scan_states ins st ! 0);
       lp' = fst (scan_states ins st ! Suc 0);
       head = (if fst (ins ! 0) = TickC then fst (answerBlockNumber (snd (ins ! 0)))
               else topBlock lp)
   in currentBlock lp \<le> currentBlock lp'
      \<and> topBlock lp' = head
      \<and> ((\<exists>rs q. requests (rpc lp') = requests (rpc lp) @ rs @ [ReqFilterLogs q])
            \<longleftrightarrow> logs = [] \<and> currentBlock lp \<le> head)
      \<and> (currentBlock lp < currentBlock lp' \<longleftrightarrow>
            logs = [] \<and> currentBlock lp \<le> head
            \<and> (\<exists>rs q. requests (rpc lp') = requests (rpc lp) @ rs @ [ReqFilterLogs q]
               \<and> snd (answerFilterLogs (snd (ins ! 0)) q) = None))"
  unfolding Let_def
  by (rule scan_currentBlock_monotone [unfolded Let_def])
    (simp_all add: newPuller_def defaultLogsWindowSize_def scan_iteration_def scan_body_def
      with_client_def fetchHead_def TopBlock_def nextLogs_def GetLogs_def)

text \<open>
  C7 (nothing to pull). When \<open>currentBlock > topBlock\<close>, \<open>nextLogs\<close> sends no request to
  the node, returns no records and leaves \<open>currentBlock\<close> as it was.
\<close>

theorem nextLogs_nothing_to_pull:
  assumes "topBlock lp < currentBlock lp"
  shows "requests (rpc (snd (nextLogs lp))) = requests (rpc lp)
    \<and> fst (nextLogs lp) = []
    \<and> currentBlock (snd (nextLogs lp)) = currentBlock lp"
  using assms by (simp add: nextLogs_idle)

theorem nextLogs_nothing_to_pull_witness:
  "let n = \<lparr>answerBlockNumber = (100, None), answerFilterLogs = (\<lambda>q. ([], None)),
            answerTransactionByHash = (\<lambda>tx. Inl (Error ''not found''))\<rparr>;
       lp = fetchHead (newPuller \<lparr>StartBlock = 101, ScanContract = replicate 20 1\<rparr>
              \<lparr>ftm = n, requests = []\<rparr> Map.empty [])
   in requests (rpc (snd (nextLogs lp))) = requests (rpc lp)
      \<and> fst (nextLogs lp) = []
      \<and> currentBlock (snd (nextLogs lp)) = currentBlock lp"
  unfolding Let_def
  by (rule nextLogs_nothing_to_pull) (simp add: newPuller_def fetchHead_def TopBlock_def)

text \<open>
  C8 (contract creation). For a transaction with no recipient, \<open>TrxRecipient\<close> returns
  the zero address and no error. When the configured contract address is not the zero
  address, \<open>process\<close> drops a record of such a transaction by the comparison of
  addresses alone. The cache stands between the two: it holds no entry for the
  transaction, or the zero address that an earlier lookup of it stored.
\<close>

theorem contract_creation_dropped:
  assumes "answerTransactionByHash (ftm (rpc lp)) (TxHash ev) = Inr trx"
    and "To trx = None"
    and "cache lp (TxHash ev) = None \<or> cache lp (TxHash ev) = Some zeroAddress"
    and "ScanContract (cfg lp) \<noteq> zeroAddress"
  shows "fst (TrxRecipient (rpc lp) (TxHash ev)) = (zeroAddress, None)
    \<and> resolveRecipient lp ev = (zeroAddress, None)
    \<and> \<not> contractMatch lp zeroAddress
    \<and> output_chan (process lp ev) = output_chan lp"
proof -
  have a: "fst (TrxRecipient (rpc lp) (TxHash ev)) = (zeroAddress, None)"
    using assms(1,2) by (simp add: TrxRecipient_def Let_def)
  have r: "resolveRecipient lp ev = (zeroAddress, None)"
    using assms(3) a
    by (auto simp: cacheTrxRecipient_def split: option.splits prod.splits)
  have m: "\<not> contractMatch lp zeroAddress"
    using assms(4) by (simp add: contractMatch_iff)
  from a r m assms(4) show ?thesis
    by (simp add: process_output)
qed

theorem contract_creation_dropped_witness:
  "let n = \<lparr>answerBlockNumber = (100, None), answerFilterLogs = (\<lambda>q. ([], None)),
            answerTransactionByHash = (\<lambda>tx. Inr \<lparr>To = None\<rparr>)\<rparr>;
       ev = \<lparr>Address = [], Topics = [], Data = [], BlockNumber = 3, TxHash = [7]\<rparr>;
       lp = newPuller \<lparr>StartBlock = 1, ScanContract = replicate 20 1\<rparr>
              \<lparr>ftm = n, requests = []\<rparr> Map.empty []
   in fst (TrxRecipient (rpc lp) (TxHash ev)) = (zeroAddress, None)
      \<and> resolveRecipient lp ev = (zeroAddress, None)
      \<and> \<not> contractMatch lp zeroAddress
      \<and> output_chan (process lp ev) = output_chan lp"
  unfolding Let_def
  by (rule contract_creation_dropped [where trx = "\<lparr>To = None\<rparr>"])
    (simp_all add: newPuller_def zeroAddress_def)

text \<open>
  C9 (a failed lookup drops one record). When the recipient lookup for the first
  buffered record fails, the iteration of \<open>scan\<close> removes that record from the buffer and
  keeps the others, and \<open>process\<close> changes neither \<open>currentBlock\<close> nor \<open>topBlock\<close> and
  sends nothing on the output channel.
\<close>

theorem resolution_failure_drops_only_the_record:
  assumes "snd (resolveRecipient lp ev) = Some e"
  shows "snd (scan_body (lp, ev # logs)) = logs
    \<and> fst (scan_body (lp, ev # logs)) = process lp ev
    \<and> currentBlock (process lp ev) = currentBlock lp
    \<and> topBlock (process lp ev) = topBlock lp
    \<and> output_chan (process lp ev) = output_chan lp"
  using assms by (simp add: scan_body_def process_fields process_output)

theorem resolution_failure_drops_only_the_record_witness:
  "let n = \<lparr>answerBlockNumber = (100, None), answerFilterLogs = (\<lambda>q. ([], None)),
            answerTransactionByHash = (\<lambda>tx. Inl (Error ''not found''))\<rparr>;
       ev = \<lparr>Address = [], Topics = [], Data = [], BlockNumber = 3, TxHash = [7]\<rparr>;
       logs = [\<lparr>Address = [], Topics = [], Data = [], BlockNumber = 4, TxHash = [8]\<rparr>];
       lp = newPuller \<lparr>StartBlock = 1, ScanContract = replicate 20 1\<rparr>
              \<lparr>ftm = n, requests = []\<rparr> Map.empty []
   in snd (scan_body (lp, ev # logs)) = logs
      \<and> fst (scan_body (lp, ev # logs)) = process lp ev
      \<and> currentBlock (process lp ev) = currentBlock lp
      \<and> topBlock (process lp ev) = topBlock lp
      \<and> output_chan (process lp ev) = output_chan lp"
  unfolding Let_def
  by (rule resolution_failure_drops_only_the_record [where e = "Error ''not found''"])
    (simp add: newPuller_def cacheTrxRecipient_def TrxRecipient_def)

text \<open>
  C10 (no address with an error). Whenever \<open>TrxRecipient\<close> returns an error, the
  address it returns with it is the zero address.
\<close>

theorem TrxRecipient_error_zero_address:
  assumes "snd (fst (TrxRecipient a tx)) = Some e"
  shows "fst (fst (TrxRecipient a tx)) = zeroAddress"
  using assms
  by (auto simp: TrxRecipient_def Let_def split: sum.splits option.splits)

theorem TrxRecipient_error_zero_address_witness:
  "let n = \<lparr>answerBlockNumber = (100, None), answerFilterLogs = (\<lambda>q. ([], None)),
            answerTransactionByHash = (\<lambda>tx. Inl (Error ''not found''))\<rparr>
   in fst (fst (TrxRecipient \<lparr>ftm = n, requests = []\<rparr> [7])) = zeroAddress"
  unfolding Let_def
  by (rule TrxRecipient_error_zero_address [where e = "Error ''not found''"])
    (simp add: TrxRecipient_def)

end
